theory Spec2Isabelle
  imports Complex_Main "HOL-Library.Word"
begin

section \<open>Strings of the source language\<close>

text \<open>
  A JavaScript string is a sequence of UTF-16 code units. All ideographs used by the
  script lie in the Basic Multilingual Plane, so each of them is one code unit.
  \<open>substring\<close>, \<open>includes\<close>, \<open>replace\<close> and \<open>trim\<close> work on code units.
\<close>

type_synonym jstring = "16 word list"

definition ascii :: "string \<Rightarrow> jstring" where
  "ascii s = map (\<lambda>c. of_nat (of_char c)) s"

definition glyph_tai_alt :: "16 word" where
  \<comment> \<open>U+81FA, the variant glyph of "Tai" in official place names\<close>
  "glyph_tai_alt = 0x81FA"

definition glyph_tai :: "16 word" where
  \<comment> \<open>U+53F0, the standard glyph\<close>
  "glyph_tai = 0x53F0"

definition unknown_county :: jstring where
  \<comment> \<open>the default location name, U+672A U+77E5 U+7E23 U+5E02\<close>
  "unknown_county = [0x672A, 0x77E5, 0x7E23, 0x5E02]"

definition substring :: "jstring \<Rightarrow> nat \<Rightarrow> nat \<Rightarrow> jstring" where
  \<comment> \<open>\<open>s.substring(i, j)\<close> for \<open>i \<le> j\<close>; indices beyond the end are clamped\<close>
  "substring s i j = take (j - i) (drop i s)"

definition includes_js :: "jstring \<Rightarrow> 16 word \<Rightarrow> bool" where
  "includes_js s c = (c \<in> set s)"

fun replace :: "jstring \<Rightarrow> 16 word \<Rightarrow> 16 word \<Rightarrow> jstring" where
  \<comment> \<open>\<open>s.replace(a, b)\<close> with a string pattern: only the first match is replaced\<close>
  "replace [] a b = []"
| "replace (x # xs) a b = (if x = a then b # xs else x # replace xs a b)"

definition isWhiteSpace :: "16 word \<Rightarrow> bool" where
  \<comment> \<open>WhiteSpace and LineTerminator code points of ECMAScript\<close>
  "isWhiteSpace c =
     (c \<in> set [0x9, 0xA, 0xB, 0xC, 0xD, 0x20, 0xA0, 0x1680, 0x2028, 0x2029,
                0x202F, 0x205F, 0x3000, 0xFEFF]
      \<or> (0x2000 \<le> c \<and> c \<le> 0x200A))"

definition trim :: "jstring \<Rightarrow> jstring" where
  "trim s = rev (dropWhile isWhiteSpace (rev (dropWhile isWhiteSpace s)))"

section \<open>Event normalizer\<close>

text \<open>
  The parsed catalog, as the XML parser delivers it: every child element is a list of
  nodes, every text leaf a string, and any field may be absent (\<open>None\<close>).
\<close>

record shindo_node =
  ShindoValue :: "jstring list option"

record location_node =
  LocationName :: "jstring list option"

record info_node =
  OriginTime :: "jstring list option"

record event_node =
  Shindo :: "shindo_node list option"
  Location :: "location_node list option"
  EarthquakeInfo :: "info_node list option"

record data_node =
  Earthquake :: "event_node list option"

record xml_data =
  Data :: "data_node option"

text \<open>
  A \<open>Date\<close> object holds a time value in milliseconds since the epoch, or is an
  Invalid Date when the string did not parse.
\<close>

datatype js_date = Valid int | Invalid

record earthquake_event =
  time :: js_date
  county :: jstring
  shindo :: jstring

datatype js_error = TypeError

definition index0 :: "'a list \<Rightarrow> 'a option" where
  \<comment> \<open>\<open>xs[0]\<close>: \<open>undefined\<close> on an empty array\<close>
  "index0 xs = (case xs of [] \<Rightarrow> None | x # _ \<Rightarrow> Some x)"

definition newDate :: "(jstring \<Rightarrow> js_date) \<Rightarrow> jstring option \<Rightarrow> js_date" where
  \<comment> \<open>\<open>new Date(time)\<close>; the parser of date strings is a parameter\<close>
  "newDate parseDate t = (case t of None \<Rightarrow> Invalid | Some s \<Rightarrow> parseDate s)"

definition readShindo :: "event_node \<Rightarrow> js_error + jstring option" where
  \<comment> \<open>\<open>event.Shindo ? event.Shindo[0].ShindoValue[0] : null\<close>\<close>
  "readShindo event =
     (case Shindo event of
        None \<Rightarrow> Inr None
      | Some ss \<Rightarrow>
          (case index0 ss of
             None \<Rightarrow> Inl TypeError
           | Some s \<Rightarrow>
               (case ShindoValue s of
                  None \<Rightarrow> Inl TypeError
                | Some vs \<Rightarrow> Inr (index0 vs))))"

definition readLocation :: "event_node \<Rightarrow> js_error + jstring option" where
  \<comment> \<open>\<open>event.Location ? event.Location[0].LocationName[0] : default\<close>\<close>
  "readLocation event =
     (case Location event of
        None \<Rightarrow> Inr (Some unknown_county)
      | Some ls \<Rightarrow>
          (case index0 ls of
             None \<Rightarrow> Inl TypeError
           | Some l \<Rightarrow>
               (case LocationName l of
                  None \<Rightarrow> Inl TypeError
                | Some ns \<Rightarrow> Inr (index0 ns))))"

definition readTime :: "event_node \<Rightarrow> js_error + jstring option" where
  \<comment> \<open>\<open>event.EarthquakeInfo[0].OriginTime[0]\<close>\<close>
  "readTime event =
     (case EarthquakeInfo event of
        None \<Rightarrow> Inl TypeError
      | Some infos \<Rightarrow>
          (case index0 infos of
             None \<Rightarrow> Inl TypeError
           | Some i \<Rightarrow>
               (case OriginTime i of
                  None \<Rightarrow> Inl TypeError
                | Some ts \<Rightarrow> Inr (index0 ts))))"

definition canonicalCounty :: "jstring \<Rightarrow> jstring" where
  \<comment> \<open>lines 51 to 55 and the \<open>trim\<close> of line 62\<close>
  "canonicalCounty location =
     (let c = substring location 0 3;
          c' = (if includes_js c glyph_tai_alt then replace c glyph_tai_alt glyph_tai else c)
      in trim c')"

definition tryEvent :: "(jstring \<Rightarrow> js_date) \<Rightarrow> event_node \<Rightarrow> js_error + earthquake_event option" where
  \<comment> \<open>the body of the \<open>try\<close> block; \<open>Inr None\<close> is the returned \<open>null\<close>\<close>
  "tryEvent parseDate event =
     (case readShindo event of
        Inl e \<Rightarrow> Inl e
      | Inr sv \<Rightarrow>
     (case readLocation event of
        Inl e \<Rightarrow> Inl e
      | Inr loc \<Rightarrow>
     (case readTime event of
        Inl e \<Rightarrow> Inl e
      | Inr tm \<Rightarrow>
     (case loc of
        None \<Rightarrow> Inl TypeError
      | Some l \<Rightarrow>
          (case sv of
             None \<Rightarrow> Inr None
           | Some s \<Rightarrow>
               if s = [] then Inr None
               else Inr (Some \<lparr>time = newDate parseDate tm,
                               county = canonicalCounty l,
                               shindo = s\<rparr>))))))"

definition eventCallback :: "(jstring \<Rightarrow> js_date) \<Rightarrow> event_node \<Rightarrow> earthquake_event option" where
  \<comment> \<open>the callback of \<open>map\<close>: the \<open>catch\<close> clause turns an exception into \<open>null\<close>\<close>
  "eventCallback parseDate event =
     (case tryEvent parseDate event of Inl e \<Rightarrow> None | Inr r \<Rightarrow> r)"

definition eventNodes :: "xml_data option \<Rightarrow> event_node list option" where
  \<comment> \<open>\<open>xmlData?.Data?.Earthquake\<close>\<close>
  "eventNodes xmlData =
     (case xmlData of
        None \<Rightarrow> None
      | Some x \<Rightarrow> (case Data x of None \<Rightarrow> None | Some d \<Rightarrow> Earthquake d))"

definition extractEarthquakeEvents ::
  "(jstring \<Rightarrow> js_date) \<Rightarrow> xml_data option \<Rightarrow> earthquake_event list" where
  "extractEarthquakeEvents parseDate xmlData =
     (case eventNodes xmlData of
        None \<Rightarrow> []
      | Some events \<Rightarrow>
          map the (filter (\<lambda>e. e \<noteq> None) (map (eventCallback parseDate) events)))"

section \<open>Frequency and probability estimator\<close>

text \<open>
  The tables of the estimator are plain objects. Reading a property of a plain object looks
  through its prototype chain: when the object has no own property of that name, a key that
  names a member of \<open>Object.prototype\<close> finds that member. The rows of the frequency table are
  read in this way under the intensity label. The regions of the events come from the
  normalizer and have at most three code units, fewer than the name of any member of
  \<open>Object.prototype\<close>; the table itself is therefore read among its own properties only.

  A number is a mathematical real or \<open>NaN\<close>: the rounding of IEEE-754 double operations is
  not part of the model.
\<close>

datatype js_number = Finite real | NaN

datatype js_value = Num nat | Str jstring

datatype proto_member = BuiltinFunction jstring | ProtoAccessor

datatype looked_up = Undefined | Own js_value | Inherited proto_member

type_synonym frequency_table = "jstring \<rightharpoonup> (jstring \<rightharpoonup> js_value)"

type_synonym analysis_result = "jstring \<rightharpoonup> (jstring \<rightharpoonup> (jstring \<rightharpoonup> js_number))"

definition Object_prototype :: "jstring \<Rightarrow> proto_member option" where
  \<comment> \<open>the members of \<open>Object.prototype\<close>: built-in functions, given with their names, and the
      accessor \<open>__proto__\<close>\<close>
  "Object_prototype key =
     (if key = ascii ''constructor'' then Some (BuiltinFunction (ascii ''Object''))
      else if key \<in> set (map ascii
                [''__defineGetter__'', ''__defineSetter__'', ''hasOwnProperty'',
                 ''__lookupGetter__'', ''__lookupSetter__'', ''isPrototypeOf'',
                 ''propertyIsEnumerable'', ''toString'', ''valueOf'', ''toLocaleString''])
      then Some (BuiltinFunction key)
      else if key = ascii ''__proto__'' then Some ProtoAccessor
      else None)"

definition getProperty :: "(jstring \<rightharpoonup> js_value) \<Rightarrow> jstring \<Rightarrow> looked_up" where
  \<comment> \<open>\<open>row[key]\<close>: an own property first, then a member of the prototype\<close>
  "getProperty row key =
     (case row key of
        Some v \<Rightarrow> Own v
      | None \<Rightarrow> (case Object_prototype key of Some m \<Rightarrow> Inherited m | None \<Rightarrow> Undefined))"

definition setProperty ::
  "(jstring \<rightharpoonup> js_value) \<Rightarrow> jstring \<Rightarrow> js_value \<Rightarrow> (jstring \<rightharpoonup> js_value)" where
  \<comment> \<open>\<open>row[key] = v\<close> for a number or a string \<open>v\<close>: the setter of \<open>__proto__\<close> ignores
      such a value, any other key becomes an own property\<close>
  "setProperty row key v = (if key = ascii ''__proto__'' then row else row(key \<mapsto> v))"

definition nativeFunctionText :: "jstring \<Rightarrow> jstring" where
  \<comment> \<open>a built-in function converted to a string\<close>
  "nativeFunctionText name = ascii ''function '' @ name @ ascii ''() { [native code] }''"

definition orZeroPlusOne :: "looked_up \<Rightarrow> js_value" where
  \<comment> \<open>\<open>(x || 0) + 1\<close>: zero, the empty string and \<open>undefined\<close> are falsy; adding 1 to a
      string, a function or an object concatenates\<close>
  "orZeroPlusOne x =
     (case x of
        Undefined \<Rightarrow> Num 1
      | Own v \<Rightarrow>
          (case v of
             Num n \<Rightarrow> Num ((if n = 0 then 0 else n) + 1)
           | Str t \<Rightarrow> (if t = [] then Num 1 else Str (t @ ascii ''1'')))
      | Inherited m \<Rightarrow>
          (case m of
             BuiltinFunction f \<Rightarrow> Str (nativeFunctionText f @ ascii ''1'')
           | ProtoAccessor \<Rightarrow> Str (ascii ''[object Object]1'')))"

definition minHistoryDate :: "earthquake_event list \<Rightarrow> int \<Rightarrow> int" where
  \<comment> \<open>\<open>allEvents.reduce((min, e) => e.time < min ? e.time : min, now)\<close>; a comparison with an
      Invalid Date is false, so the accumulator is always a valid time value\<close>
  "minHistoryDate allEvents now =
     foldl (\<lambda>m e. case time e of Valid t \<Rightarrow> (if t < m then t else m) | Invalid \<Rightarrow> m)
       now allEvents"

definition msPerYear :: real where
  "msPerYear = 1000 * 60 * 60 * 24 * 365.25"

definition totalAnalysisYears :: "earthquake_event list \<Rightarrow> int \<Rightarrow> real" where
  "totalAnalysisYears allEvents now =
     real_of_int (now - minHistoryDate allEvents now) / msPerYear"

definition countEvent :: "frequency_table \<Rightarrow> earthquake_event \<Rightarrow> frequency_table" where
  \<comment> \<open>the body of the counting loop, lines 89 to 92\<close>
  "countEvent stats event =
     (let c = county event;
          s = shindo event;
          row = (case stats c of None \<Rightarrow> Map.empty | Some r \<Rightarrow> r)
      in stats(c \<mapsto> setProperty row s (orZeroPlusOne (getProperty row s))))"

definition buildStats :: "earthquake_event list \<Rightarrow> frequency_table" where
  "buildStats allEvents = foldl countEvent Map.empty allEvents"

definition timeIntervals :: "nat list" where
  "timeIntervals = [1, 3, 6, 9]"

fun numberToString :: "nat \<Rightarrow> jstring" where
  \<comment> \<open>the decimal digits of a non-negative integer, as a template literal prints it\<close>
  "numberToString n =
     (if n < 10 then [of_nat (48 + n)]
      else numberToString (n div 10) @ [of_nat (48 + n mod 10)])"

declare numberToString.simps [simp del]

definition horizonKey :: "nat \<Rightarrow> jstring" where
  \<comment> \<open>the template literal of line 109, the number followed by \<open>yr\<close>\<close>
  "horizonKey t = numberToString t @ ascii ''yr''"

definition Math_round :: "real \<Rightarrow> real" where
  \<comment> \<open>\<open>Math.round\<close>: the nearest integer, ties towards plus infinity\<close>
  "Math_round x = real_of_int \<lfloor>x + 1 / 2\<rfloor>"

definition toNumber :: "js_value \<Rightarrow> js_number" where
  \<comment> \<open>the operand of the division of line 102 as a number. A string that is not a numeric
      literal converts to \<open>NaN\<close>; the strings held by a row begin with the word
      \<open>function\<close> (lemma \<open>buildStats_strings\<close>)\<close>
  "toNumber v = (case v of Num n \<Rightarrow> Finite (real n) | Str t \<Rightarrow> NaN)"

definition annualRate :: "js_value \<Rightarrow> real \<Rightarrow> js_number" where
  \<comment> \<open>line 102, \<open>count / totalAnalysisYears\<close>\<close>
  "annualRate count totalYears =
     (case toNumber count of Finite x \<Rightarrow> Finite (x / totalYears) | NaN \<Rightarrow> NaN)"

definition probabilityPercent :: "js_number \<Rightarrow> nat \<Rightarrow> js_number" where
  \<comment> \<open>lines 107 and 109; every operation on \<open>NaN\<close> gives \<open>NaN\<close>\<close>
  "probabilityPercent lambda t =
     (case lambda of
        NaN \<Rightarrow> NaN
      | Finite l \<Rightarrow>
          (let probability = 1 - exp (- (l * real t))
           in Finite (Math_round (probability * 10000) / 100)))"

definition cellProbabilities :: "js_value \<Rightarrow> real \<Rightarrow> (jstring \<rightharpoonup> js_number)" where
  \<comment> \<open>lines 102 to 110 for one cell of the frequency table\<close>
  "cellProbabilities count totalYears =
     (let lambda = annualRate count totalYears
      in foldl (\<lambda>cell t. cell(horizonKey t \<mapsto> probabilityPercent lambda t))
           Map.empty timeIntervals)"

definition analyzeEarthquakeData :: "earthquake_event list \<Rightarrow> int \<Rightarrow> analysis_result" where
  \<comment> \<open>\<open>now\<close> is the reading of the clock at line 76\<close>
  "analyzeEarthquakeData allEvents now =
     (let totalYears = totalAnalysisYears allEvents now
      in if totalYears < 1 then Map.empty
         else
           (let stats = buildStats allEvents
            in (\<lambda>c. map_option
                  (\<lambda>shindoCounts. (\<lambda>s. map_option
                     (\<lambda>count. cellProbabilities count totalYears) (shindoCounts s)))
                  (stats c))))"

section \<open>The run and its documents\<close>

datatype thrown = Thrown (message: "jstring option")

record run_meta =
  updateTime :: int
  updaterName :: jstring
  updaterUID :: jstring

record latest_doc = run_meta +
  analysisData :: analysis_result
  disclaimer :: jstring
  totalEvents :: nat

record history_entry = run_meta +
  status :: jstring
  eventCount :: "nat option"
  errorMessage :: "jstring option"

text \<open>
  What the collaborators of one run deliver: the environment variable, the outcome of
  awaiting both downloads, the date parser, the readings of the clocks, and the outcomes of
  the two writes of the \<open>try\<close> block (\<open>None\<close> when a write succeeds).
\<close>

record run_env =
  GITHUB_ACTOR :: "jstring option"
  fetched :: "thrown + (xml_data option \<times> xml_data option)"
  parseDate :: "jstring \<Rightarrow> js_date"
  clock :: int
  timestampTry :: int
  timestampCatch :: int
  setLatest :: "thrown option"
  addHistory :: "thrown option"

text \<open>
  The effects of a run: the document handed to \<open>analysis_results/latest\<close>, the entries
  handed to \<open>update_history\<close> in order, and the exit code when the run ends the process.
\<close>

record run_effects =
  latest :: "latest_doc option"
  history :: "history_entry list"
  exitCode :: "nat option"

definition default_updater :: jstring where
  "default_updater = ascii ''GitHub Actions System Automation''"

definition system_uid :: jstring where
  "system_uid = ascii ''system-gh-actions''"

definition no_events_message :: jstring where
  \<comment> \<open>the message of the error thrown at line 157\<close>
  "no_events_message =
     [0x7121, 0x6CD5, 0x53D6, 0x5F97, 0x4EFB, 0x4F55, 0x5730, 0x9707, 0x4E8B, 0x4EF6,
      0x8CC7, 0x6599, 0x3002]"

definition unknown_error_message :: jstring where
  \<comment> \<open>the default of line 197\<close>
  "unknown_error_message = [0x672A, 0x77E5, 0x932F, 0x8AA4]"

definition disclaimer_text :: jstring where
  \<comment> \<open>the string literal of line 170\<close>
  "disclaimer_text =
     [0x672C, 0x5206, 0x6790, 0x7D50, 0x679C, 0x57FA, 0x65BC, 0x4E2D, 0x592E, 0x6C23,
      0x8C61, 0x7F72, 0x6B77, 0x53F2, 0x5730, 0x9707, 0x76EE, 0x9304, 0xFF0C, 0x63A1,
      0x7528, 0x7C21, 0x5316, 0x7684, 0x6CCA, 0x677E, 0x5206, 0x4F48, 0x6A21, 0x578B,
      0x63A8, 0x4F30, 0x672A, 0x4F86, 0x767C, 0x751F, 0x6A5F, 0x7387, 0x3002, 0x672C,
      0x6578, 0x64DA, 0x7531, 0x0020, 0x0047, 0x0069, 0x0074, 0x0048, 0x0075, 0x0062,
      0x0020, 0x0041, 0x0063, 0x0074, 0x0069, 0x006F, 0x006E, 0x0073, 0x0020, 0x7CFB,
      0x7D71, 0x6392, 0x7A0B, 0x81EA, 0x52D5, 0x66F4, 0x65B0, 0xFF0C, 0x4E0D, 0x4EE3,
      0x8868, 0x5373, 0x6642, 0x6216, 0x5B98, 0x65B9, 0x9810, 0x6E2C, 0x3002, 0x5C0D,
      0x65BC, 0x4EFB, 0x4F55, 0x4F9D, 0x6B64, 0x8CC7, 0x8A0A, 0x6240, 0x505A, 0x7684,
      0x6C7A, 0x5B9A, 0xFF0C, 0x958B, 0x767C, 0x8005, 0x4E0D, 0x627F, 0x64D4, 0x4EFB,
      0x4F55, 0x8CAC, 0x4EFB, 0x3002]"

definition orDefault :: "jstring option \<Rightarrow> jstring \<Rightarrow> jstring" where
  \<comment> \<open>\<open>x || d\<close> on an optional string: \<open>undefined\<close> and the empty string are falsy\<close>
  "orDefault x d = (case x of None \<Rightarrow> d | Some s \<Rightarrow> if s = [] then d else s)"

definition tryBody :: "run_env \<Rightarrow> jstring \<Rightarrow> run_effects \<times> (thrown + unit)" where
  \<comment> \<open>lines 143 to 186; \<open>Inl\<close> is the exception that reaches the \<open>catch\<close> clause\<close>
  "tryBody env name =
     (let none = \<lparr>latest = None, history = [], exitCode = None\<rparr>
      in case fetched env of
           Inl e \<Rightarrow> (none, Inl e)
         | Inr (currentYearXml, historyXml) \<Rightarrow>
             (let currentEvents = extractEarthquakeEvents (parseDate env) currentYearXml;
                  historyEvents = extractEarthquakeEvents (parseDate env) historyXml;
                  allEvents = currentEvents @ historyEvents
              in if length allEvents = 0 then (none, Inl (Thrown (Some no_events_message)))
                 else
                   (let analysis = analyzeEarthquakeData allEvents (clock env);
                        latestData = \<lparr>updateTime = timestampTry env, updaterName = name,
                                       updaterUID = system_uid, analysisData = analysis,
                                       disclaimer = disclaimer_text,
                                       totalEvents = length allEvents\<rparr>;
                        written = none\<lparr>latest := Some latestData\<rparr>
                    in case setLatest env of
                         Some e \<Rightarrow> (written, Inl e)
                       | None \<Rightarrow>
                           (let entry = \<lparr>updateTime = timestampTry env, updaterName = name,
                                          updaterUID = system_uid,
                                          status = ascii ''SUCCESS (Auto)'',
                                          eventCount = Some (length allEvents),
                                          errorMessage = None\<rparr>;
                                logged = written\<lparr>history := [entry]\<rparr>
                            in case addHistory env of
                                 Some e \<Rightarrow> (logged, Inl e)
                               | None \<Rightarrow> (logged, Inr ())))))"

definition main :: "run_env \<Rightarrow> run_effects" where
  \<comment> \<open>lines 140 to 201, once the database handle has been obtained\<close>
  "main env =
     (let name = orDefault (GITHUB_ACTOR env) default_updater
      in case tryBody env name of
           (effects, Inr u) \<Rightarrow> effects
         | (effects, Inl error) \<Rightarrow>
             (let entry = \<lparr>updateTime = timestampCatch env, updaterName = name,
                            updaterUID = system_uid,
                            status = ascii ''FAILED (Auto)'',
                            eventCount = None,
                            errorMessage = Some (orDefault (message error) unknown_error_message)\<rparr>
              in effects\<lparr>history := history effects @ [entry], exitCode := Some 1\<rparr>))"

section \<open>Notions of the specification\<close>

definition replaceAll :: "jstring \<Rightarrow> 16 word \<Rightarrow> 16 word \<Rightarrow> jstring" where
  \<comment> \<open>every occurrence of one code unit replaced by another\<close>
  "replaceAll s a b = map (\<lambda>x. if x = a then b else x) s"

definition canonicalCounty_spec :: "jstring \<Rightarrow> jstring" where
  \<comment> \<open>the region as the specification words it: replace every occurrence, truncate, trim\<close>
  "canonicalCounty_spec name =
     trim (substring (replaceAll name glyph_tai_alt glyph_tai) 0 3)"



definition validTimes :: "earthquake_event list \<Rightarrow> int list" where
  "validTimes allEvents =
     concat (map (\<lambda>e. case time e of Valid t \<Rightarrow> [t] | Invalid \<Rightarrow> []) allEvents)"

definition earliestTime_spec :: "earthquake_event list \<Rightarrow> int \<Rightarrow> int" where
  \<comment> \<open>the earliest event time, \<open>now\<close> when there is none\<close>
  "earliestTime_spec allEvents now =
     (if validTimes allEvents = [] then now else Min (set (validTimes allEvents)))"

definition totalYears_spec :: "earthquake_event list \<Rightarrow> int \<Rightarrow> real" where
  "totalYears_spec allEvents now =
     real_of_int (now - earliestTime_spec allEvents now) / msPerYear"

definition tableCell :: "frequency_table \<Rightarrow> jstring \<Rightarrow> jstring \<Rightarrow> js_value option" where
  \<comment> \<open>what the table stores for a (region, intensity) pair, if it has that cell\<close>
  "tableCell stats c s = (case stats c of None \<Rightarrow> None | Some row \<Rightarrow> row s)"

definition resultCell ::
  "analysis_result \<Rightarrow> jstring \<Rightarrow> jstring \<Rightarrow> (jstring \<rightharpoonup> js_number) option" where
  \<comment> \<open>the horizon table stored for a (region, intensity) pair, if the result has that cell\<close>
  "resultCell res c s = (case res c of None \<Rightarrow> None | Some row \<Rightarrow> row s)"

definition resultValue ::
  "analysis_result \<Rightarrow> jstring \<Rightarrow> jstring \<Rightarrow> jstring \<Rightarrow> js_number option" where
  \<comment> \<open>the value stored under a horizon key in the cell of a (region, intensity) pair\<close>
  "resultValue res c s k = (case resultCell res c s of None \<Rightarrow> None | Some cell \<Rightarrow> cell k)"

definition eventsOfCell :: "earthquake_event list \<Rightarrow> jstring \<Rightarrow> jstring \<Rightarrow> nat" where
  \<comment> \<open>the number of events of a (region, intensity) pair\<close>
  "eventsOfCell allEvents c s = length (filter (\<lambda>e. county e = c \<and> shindo e = s) allEvents)"

definition shortRegions :: "earthquake_event list \<Rightarrow> bool" where
  \<comment> \<open>every region has at most three code units, as the normalizer leaves it\<close>
  "shortRegions allEvents = list_all (\<lambda>e. length (county e) \<le> 3) allEvents"

definition number_le :: "js_number \<Rightarrow> js_number \<Rightarrow> bool" where
  \<comment> \<open>the order of numbers; no comparison with \<open>NaN\<close> holds\<close>
  "number_le a b =
     (case a of
        NaN \<Rightarrow> False
      | Finite x \<Rightarrow> (case b of NaN \<Rightarrow> False | Finite y \<Rightarrow> x \<le> y))"

definition horizonsNonDecreasing :: "analysis_result \<Rightarrow> jstring \<Rightarrow> jstring \<Rightarrow> bool" where
  \<comment> \<open>the four horizons of a cell are stored and their values do not decrease\<close>
  "horizonsNonDecreasing res c s =
     (case map (resultValue res c s) [ascii ''1yr'', ascii ''3yr'', ascii ''6yr'', ascii ''9yr''] of
        [Some p1, Some p3, Some p6, Some p9] \<Rightarrow>
          number_le p1 p3 \<and> number_le p3 p6 \<and> number_le p6 p9
      | _ \<Rightarrow> False)"

definition isPercentage :: "js_number \<Rightarrow> bool" where
  \<comment> \<open>a number between 0 and 100 that is a whole number of hundredths\<close>
  "isPercentage v =
     (case v of NaN \<Rightarrow> False | Finite x \<Rightarrow> 0 \<le> x \<and> x \<le> 100 \<and> x * 100 \<in> \<int>)"

definition percentagesValid :: "analysis_result \<Rightarrow> jstring \<Rightarrow> jstring \<Rightarrow> bool" where
  \<comment> \<open>each of the four horizons of a cell stores a percentage\<close>
  "percentagesValid res c s =
     list_all (\<lambda>k. case resultValue res c s k of None \<Rightarrow> False | Some v \<Rightarrow> isPercentage v)
       [ascii ''1yr'', ascii ''3yr'', ascii ''6yr'', ascii ''9yr'']"

definition countOf :: "js_value option \<Rightarrow> nat option" where
  \<comment> \<open>the count a cell stands for: none when it holds a string\<close>
  "countOf v = (case v of None \<Rightarrow> Some 0 | Some (Num n) \<Rightarrow> Some n | Some (Str t) \<Rightarrow> None)"

definition caught :: "run_env \<Rightarrow> bool" where
  \<comment> \<open>the \<open>try\<close> block of the run ended in an exception\<close>
  "caught env = isl (snd (tryBody env (orDefault (GITHUB_ACTOR env) default_updater)))"

section \<open>Sample inputs\<close>

definition sample_parseDate :: "jstring \<Rightarrow> js_date" where
  \<comment> \<open>a date parser that reads every string as the epoch\<close>
  "sample_parseDate s = Valid 0"

definition sample_env :: run_env where
  \<comment> \<open>a run on one catalog with a single event node, every write succeeding\<close>
  "sample_env =
     \<lparr>GITHUB_ACTOR = None,
      fetched = Inr (Some \<lparr>Data = Some \<lparr>Earthquake = Some
                  [\<lparr>Shindo = Some [\<lparr>ShindoValue = Some [[0x33]]\<rparr>],
                    Location = None,
                    EarthquakeInfo = Some [\<lparr>OriginTime = Some [[0x30]]\<rparr>]\<rparr>]\<rparr>\<rparr>, None),
      parseDate = sample_parseDate,
      clock = 63115200000,
      timestampTry = 63115200001,
      timestampCatch = 63115200002,
      setLatest = None,
      addHistory = None\<rparr>"

section \<open>Properties of the string operations\<close>

lemmas string_eval = canonicalCounty_def substring_def includes_js_def glyph_tai_alt_def
  glyph_tai_def trim_def isWhiteSpace_def unknown_county_def

lemma replace_once:
  "count_list s a \<le> 1 \<Longrightarrow> a \<in> set s \<Longrightarrow> replace s a b = replaceAll s a b"
proof (induction s)
  case Nil
  then show ?case by simp
next
  case (Cons x xs)
  show ?case
  proof (cases "x = a")
    case True
    with Cons.prems have "count_list xs a = 0" by simp
    then have "a \<notin> set xs" by (simp add: count_list_0_iff)
    then have "map (\<lambda>x. if x = a then b else x) xs = xs"
      by (induction xs) auto
    with True show ?thesis by (simp add: replaceAll_def)
  next
    case False
    with Cons show ?thesis by (simp add: replaceAll_def)
  qed
qed

lemma replaceAll_absent: "a \<notin> set s \<Longrightarrow> replaceAll s a b = s"
  by (induction s) (auto simp: replaceAll_def)

lemma take_replaceAll: "take n (replaceAll s a b) = replaceAll (take n s) a b"
  by (simp add: replaceAll_def take_map)

lemma canonicalCounty_single:
  "count_list (take 3 name) glyph_tai_alt \<le> 1 \<Longrightarrow> canonicalCounty name = canonicalCounty_spec name"
  by (cases "glyph_tai_alt \<in> set (take 3 name)")
     (simp_all add: canonicalCounty_def canonicalCounty_spec_def substring_def includes_js_def
        replace_once replaceAll_absent take_replaceAll)

lemma dropWhile_fixed: "xs = [] \<or> \<not> P (hd xs) \<Longrightarrow> dropWhile P xs = xs"
  by (cases xs) auto

lemma trim_shape:
  "trim s = [] \<or> (\<not> isWhiteSpace (hd (trim s)) \<and> \<not> isWhiteSpace (last (trim s)))"
proof (cases "trim s = []")
  case True
  then show ?thesis by simp
next
  case False
  define xs where "xs = dropWhile isWhiteSpace s"
  define ys where "ys = dropWhile isWhiteSpace (rev xs)"
  have t: "trim s = rev ys" by (simp add: trim_def xs_def ys_def)
  with False have ys: "ys \<noteq> []" by simp
  then have l: "\<not> isWhiteSpace (hd ys)" unfolding ys_def by (rule hd_dropWhile)
  from ys have xs: "xs \<noteq> []" by (auto simp: ys_def)
  then have hx: "\<not> isWhiteSpace (hd xs)" unfolding xs_def by (rule hd_dropWhile)
  obtain zs where z: "rev xs = zs @ ys"
    by (metis takeWhile_dropWhile_id ys_def)
  then have "xs = rev ys @ rev zs" by (metis rev_append rev_rev_ident)
  with ys have "hd xs = hd (rev ys)" by simp
  with hx l t ys show ?thesis by (simp add: last_rev)
qed

lemma trim_idem: "trim (trim s) = trim s"
proof -
  from trim_shape [of s] have a: "dropWhile isWhiteSpace (trim s) = trim s"
    by (intro dropWhile_fixed) auto
  from trim_shape [of s] have "rev (trim s) = [] \<or> \<not> isWhiteSpace (hd (rev (trim s)))"
    by (auto simp: hd_rev)
  then have b: "dropWhile isWhiteSpace (rev (trim s)) = rev (trim s)"
    by (rule dropWhile_fixed)
  show ?thesis
    unfolding trim_def [of "trim s"] by (simp add: a b)
qed

lemma set_trim: "set (trim s) \<subseteq> set s"
  by (metis trim_def set_rev set_dropWhileD subsetI)

lemma length_trim: "length (trim s) \<le> length s"
  unfolding trim_def by (metis length_dropWhile_le length_rev order_trans)

lemma canonicalCounty_idem_single:
  assumes "count_list (take 3 name) glyph_tai_alt \<le> 1"
  shows "canonicalCounty (canonicalCounty name) = canonicalCounty name"
proof -
  define r where "r = replaceAll (take 3 name) glyph_tai_alt glyph_tai"
  have c: "canonicalCounty name = trim r"
    using assms by (simp add: canonicalCounty_single canonicalCounty_spec_def substring_def take_replaceAll r_def)
  have "glyph_tai_alt \<notin> set r"
    by (auto simp: r_def replaceAll_def glyph_tai_alt_def glyph_tai_def)
  with set_trim [of r] have no: "glyph_tai_alt \<notin> set (trim r)" by auto
  have "length r \<le> 3" by (simp add: r_def replaceAll_def)
  with length_trim [of r] have "length (trim r) \<le> 3" by simp
  then have "take 3 (trim r) = trim r" by simp
  with no have "canonicalCounty (trim r) = trim (trim r)"
    by (simp add: canonicalCounty_def substring_def includes_js_def)
  with c show ?thesis by (simp add: trim_idem)
qed

section \<open>Properties of the normalizer\<close>

text \<open>
  Claim C3: the region of an extracted event is the location name with every occurrence of
  the variant glyph replaced by the standard glyph, truncated to three characters and
  trimmed. The code truncates first and then calls \<open>replace\<close> with a string pattern, which
  replaces the first occurrence only. For a node whose location name starts with two variant
  glyphs the region keeps the second one, where the specified region has none. Lemma
  \<open>canonicalCounty_single\<close> shows that the two agree whenever the first three characters
  hold at most one variant glyph.
\<close>

theorem region_replaces_first_glyph_only:
  "map county (extractEarthquakeEvents parse
     (Some \<lparr>Data = Some \<lparr>Earthquake = Some
        [\<lparr>Shindo = Some [\<lparr>ShindoValue = Some [[0x33]]\<rparr>],
          Location = Some [\<lparr>LocationName = Some [[0x81FA, 0x81FA, 0x5317]]\<rparr>],
          EarthquakeInfo = Some [\<lparr>OriginTime = Some [[0x30]]\<rparr>]\<rparr>]\<rparr>\<rparr>))
     = [[0x53F0, 0x81FA, 0x5317]]
   \<and> canonicalCounty_spec [0x81FA, 0x81FA, 0x5317] = [0x53F0, 0x53F0, 0x5317]"
  by (simp add: extractEarthquakeEvents_def eventNodes_def eventCallback_def tryEvent_def
        readShindo_def readLocation_def readTime_def index0_def newDate_def
        canonicalCounty_spec_def replaceAll_def string_eval)

text \<open>
  Claim C4: canonicalizing a region name twice gives the same result as canonicalizing it
  once. On a name that starts with two variant glyphs the first pass replaces one of them and
  the second pass the other, so the two results differ. Lemma
  \<open>canonicalCounty_idem_single\<close> shows idempotence whenever the first three characters
  hold at most one variant glyph.
\<close>

theorem canonicalCounty_twice_differs:
  "canonicalCounty [0x81FA, 0x81FA, 0x5317] = [0x53F0, 0x81FA, 0x5317]
   \<and> canonicalCounty (canonicalCounty [0x81FA, 0x81FA, 0x5317]) = [0x53F0, 0x53F0, 0x5317]
   \<and> canonicalCounty (canonicalCounty [0x81FA, 0x81FA, 0x5317])
       \<noteq> canonicalCounty [0x81FA, 0x81FA, 0x5317]"
  by (simp add: string_eval)




text \<open>
  Claim C7: when the path to the event list is absent from the catalog, or the list is
  empty, the normalizer returns the empty sequence. The normalizer is a total function into
  lists: exceptions arise inside the callback only and are caught there.
\<close>

theorem extract_empty_catalog:
  "eventNodes xmlData = None \<or> eventNodes xmlData = Some [] \<Longrightarrow>
   extractEarthquakeEvents parse xmlData = []"
  by (auto simp: extractEarthquakeEvents_def)

theorem extract_empty_catalog_witness:
  "(eventNodes (Some \<lparr>Data = Some \<lparr>Earthquake = None\<rparr>\<rparr>) = None
      \<or> eventNodes (Some \<lparr>Data = Some \<lparr>Earthquake = None\<rparr>\<rparr>) = Some [])
   \<and> extractEarthquakeEvents sample_parseDate (Some \<lparr>Data = Some \<lparr>Earthquake = None\<rparr>\<rparr>) = []"
  using extract_empty_catalog [of "Some \<lparr>Data = Some \<lparr>Earthquake = None\<rparr>\<rparr>" sample_parseDate]
  by (simp add: eventNodes_def)

text \<open>
  Claim C10: an event node with an intensity value and an origin time but without a
  location field is kept; its region is the first three characters of the default
  location name, U+672A U+77E5 U+7E23.
\<close>

theorem missing_location_placeholder:
  assumes "eventNodes xmlData = Some events" and "event \<in> set events"
    and "Location event = None"
    and "Shindo event = Some (sn # sns)" and "ShindoValue sn = Some (sv # svs)" and "sv \<noteq> []"
    and "EarthquakeInfo event = Some (i # infos)" and "OriginTime i = Some (t # ts)"
  shows "\<lparr>time = parse t, county = [0x672A, 0x77E5, 0x7E23], shindo = sv\<rparr>
           \<in> set (extractEarthquakeEvents parse xmlData)"
proof -
  let ?ev = "\<lparr>time = parse t, county = [0x672A, 0x77E5, 0x7E23], shindo = sv\<rparr>"
  have c: "canonicalCounty unknown_county = [0x672A, 0x77E5, 0x7E23]"
    by (simp add: string_eval)
  have "eventCallback parse event = Some ?ev"
    using assms(3-8)
    by (simp add: eventCallback_def tryEvent_def readShindo_def readLocation_def readTime_def
          index0_def newDate_def c)
  with assms(2) have "Some ?ev \<in> set (filter (\<lambda>e. e \<noteq> None) (map (eventCallback parse) events))"
    by force
  then have "the (Some ?ev) \<in> set (map the (filter (\<lambda>e. e \<noteq> None) (map (eventCallback parse) events)))"
    by (simp only: set_map image_eqI [OF refl])
  with assms(1) show ?thesis by (simp add: extractEarthquakeEvents_def)
qed

theorem missing_location_placeholder_witness:
  "eventNodes (Some \<lparr>Data = Some \<lparr>Earthquake = Some
        [\<lparr>Shindo = Some [\<lparr>ShindoValue = Some [[0x33]]\<rparr>],
          Location = None,
          EarthquakeInfo = Some [\<lparr>OriginTime = Some [[0x30]]\<rparr>]\<rparr>]\<rparr>\<rparr>)
     = Some [\<lparr>Shindo = Some [\<lparr>ShindoValue = Some [[0x33]]\<rparr>],
          Location = None,
          EarthquakeInfo = Some [\<lparr>OriginTime = Some [[0x30]]\<rparr>]\<rparr>]
   \<and> \<lparr>time = sample_parseDate [0x30], county = [0x672A, 0x77E5, 0x7E23], shindo = [0x33]\<rparr>
       \<in> set (extractEarthquakeEvents sample_parseDate
           (Some \<lparr>Data = Some \<lparr>Earthquake = Some
             [\<lparr>Shindo = Some [\<lparr>ShindoValue = Some [[0x33]]\<rparr>],
               Location = None,
               EarthquakeInfo = Some [\<lparr>OriginTime = Some [[0x30]]\<rparr>]\<rparr>]\<rparr>\<rparr>))"
  using missing_location_placeholder [of
      "Some \<lparr>Data = Some \<lparr>Earthquake = Some
        [\<lparr>Shindo = Some [\<lparr>ShindoValue = Some [[0x33]]\<rparr>],
          Location = None,
          EarthquakeInfo = Some [\<lparr>OriginTime = Some [[0x30]]\<rparr>]\<rparr>]\<rparr>\<rparr>"
      "[\<lparr>Shindo = Some [\<lparr>ShindoValue = Some [[0x33]]\<rparr>],
          Location = None,
          EarthquakeInfo = Some [\<lparr>OriginTime = Some [[0x30]]\<rparr>]\<rparr>]"
      "\<lparr>Shindo = Some [\<lparr>ShindoValue = Some [[0x33]]\<rparr>],
          Location = None,
          EarthquakeInfo = Some [\<lparr>OriginTime = Some [[0x30]]\<rparr>]\<rparr>"
      "\<lparr>ShindoValue = Some [[0x33]]\<rparr>" "[]" "[0x33]" "[]"
      "\<lparr>OriginTime = Some [[0x30]]\<rparr>" "[]" "[0x30]" "[]" sample_parseDate]
  by (simp add: eventNodes_def)

section \<open>Properties of the estimator\<close>

lemma minHistoryDate_foldl:
  "foldl (\<lambda>m e. case time e of Valid t \<Rightarrow> (if t < m then t else m) | Invalid \<Rightarrow> m) a evs
     = (if validTimes evs = [] then a else min a (Min (set (validTimes evs))))"
proof (induction evs arbitrary: a)
  case Nil
  then show ?case by (simp add: validTimes_def)
next
  case (Cons e evs)
  show ?case
  proof (cases "time e")
    case (Valid t)
    then have v: "validTimes (e # evs) = t # validTimes evs" by (simp add: validTimes_def)
    show ?thesis
      using Valid by (simp add: Cons.IH v min_def) (auto simp: min_def)
  next
    case Invalid
    then have v: "validTimes (e # evs) = validTimes evs" by (simp add: validTimes_def)
    show ?thesis using Invalid by (simp add: Cons.IH v)
  qed
qed

lemma minHistoryDate_spec:
  "minHistoryDate evs now = min now (earliestTime_spec evs now)"
  by (simp add: minHistoryDate_def minHistoryDate_foldl earliestTime_spec_def)

lemma msPerYear_pos: "0 < msPerYear"
  by (simp add: msPerYear_def)

lemma window_test_spec:
  "totalAnalysisYears evs now < 1 \<longleftrightarrow> totalYears_spec evs now < 1"
proof (cases "earliestTime_spec evs now \<le> now")
  case True
  then show ?thesis
    by (simp add: totalAnalysisYears_def totalYears_spec_def minHistoryDate_spec min_def)
next
  case False
  then have "minHistoryDate evs now = now" by (simp add: minHistoryDate_spec min_def)
  then have a: "totalAnalysisYears evs now < 1" by (simp add: totalAnalysisYears_def)
  have "real_of_int (now - earliestTime_spec evs now) < 0" using False by simp
  then have "totalYears_spec evs now < 0"
    using msPerYear_pos by (simp add: totalYears_spec_def divide_neg_pos)
  with a show ?thesis by simp
qed

text \<open>
  Claim C2: with the analysis window measured from the earliest event time (from \<open>now\<close>
  when there is no event) in years of 365.25 days, a window shorter than one year makes the
  estimator return the empty mapping, and so does the empty event sequence. The window test
  of the code agrees with the one of the specification, and the two windows are equal
  whenever the earliest event is not later than \<open>now\<close>.
\<close>

theorem short_window_empty:
  "(totalYears_spec allEvents now < 1 \<longrightarrow> analyzeEarthquakeData allEvents now = Map.empty)
   \<and> analyzeEarthquakeData [] now = Map.empty
   \<and> (totalAnalysisYears allEvents now < 1 \<longleftrightarrow> totalYears_spec allEvents now < 1)"
proof -
  have "totalAnalysisYears [] now = 0"
    by (simp add: totalAnalysisYears_def minHistoryDate_def)
  then have "analyzeEarthquakeData [] now = Map.empty"
    by (simp add: analyzeEarthquakeData_def)
  then show ?thesis
    by (simp add: window_test_spec analyzeEarthquakeData_def)
qed

theorem short_window_empty_witness:
  "totalYears_spec [\<lparr>time = Valid 1000, county = [0x53F0, 0x5317], shindo = [0x33]\<rparr>] 31557600999 < 1
   \<and> analyzeEarthquakeData
        [\<lparr>time = Valid 1000, county = [0x53F0, 0x5317], shindo = [0x33]\<rparr>] 31557600999 = Map.empty"
  using short_window_empty
    [of "[\<lparr>time = Valid 1000, county = [0x53F0, 0x5317], shindo = [0x33]\<rparr>]" 31557600999]
  by (simp add: totalYears_spec_def earliestTime_spec_def validTimes_def msPerYear_def)

subsection \<open>Keys found on the prototype\<close>

lemma proto_accessor_key: "Object_prototype s = Some ProtoAccessor \<Longrightarrow> s = ascii ''__proto__''"
  unfolding Object_prototype_def by (simp split: if_splits)

lemma proto_key_accessor: "Object_prototype (ascii ''__proto__'') = Some ProtoAccessor"
  by (simp add: Object_prototype_def ascii_def)

lemma function_key_not_proto:
  "Object_prototype s = Some (BuiltinFunction f) \<Longrightarrow> s \<noteq> ascii ''__proto__''"
  using proto_key_accessor by auto

lemma length_ascii: "length (ascii x) = length x"
  by (simp add: ascii_def)

lemma member_key_long: "Object_prototype s = Some m \<Longrightarrow> 3 < length s"
  unfolding Object_prototype_def by (auto simp: length_ascii split: if_splits)

lemma short_key_ordinary: "length s \<le> 3 \<Longrightarrow> Object_prototype s = None"
  using member_key_long [of s] by (cases "Object_prototype s") auto

lemma length_replace: "length (replace s a b) = length s"
  by (induction s) auto

lemma length_canonicalCounty: "length (canonicalCounty name) \<le> 3"
proof -
  have "length (canonicalCounty name) \<le> length (substring name 0 3)"
    using length_trim [of "substring name 0 3"]
      length_trim [of "replace (substring name 0 3) glyph_tai_alt glyph_tai"]
    by (simp add: canonicalCounty_def Let_def length_replace)
  also have "\<dots> \<le> 3" by (simp add: substring_def)
  finally show ?thesis .
qed

lemma eventCallback_short:
  "eventCallback parse event = Some ev \<Longrightarrow> length (county ev) \<le> 3"
  by (auto simp: eventCallback_def tryEvent_def length_canonicalCounty
           split: sum.splits option.splits if_splits)


lemma extract_shortRegions: "shortRegions (extractEarthquakeEvents parse xmlData)"
  by (auto simp: shortRegions_def extractEarthquakeEvents_def list_all_iff
           dest: eventCallback_short split: option.splits)

subsection \<open>Cells of the frequency table\<close>

lemma ordinary_not_proto: "Object_prototype s = None \<Longrightarrow> s \<noteq> ascii ''__proto__''"
  by (auto simp: Object_prototype_def split: if_splits)

lemma tableCell_countEvent_other:
  "\<not> (county e = c \<and> shindo e = s) \<Longrightarrow> tableCell (countEvent st e) c s = tableCell st c s"
  by (auto simp: tableCell_def countEvent_def setProperty_def Let_def split: option.splits)

lemma tableCell_countEvent_ordinary:
  assumes "Object_prototype s = None" and "county e = c" and "shindo e = s"
  shows "tableCell (countEvent st e) c s =
           Some (orZeroPlusOne (case tableCell st c s of None \<Rightarrow> Undefined | Some v \<Rightarrow> Own v))"
  using assms ordinary_not_proto [OF assms(1)]
  by (auto simp: tableCell_def countEvent_def setProperty_def getProperty_def Let_def
           split: option.splits)

lemma tableCell_foldl_ordinary:
  assumes "Object_prototype s = None"
  shows "countOf (tableCell st c s) = Some m \<Longrightarrow>
         tableCell (foldl countEvent st evs) c s =
           (if eventsOfCell evs c s = 0 then tableCell st c s
            else Some (Num (m + eventsOfCell evs c s)))"
proof (induction evs arbitrary: st m)
  case Nil
  then show ?case by (simp add: eventsOfCell_def)
next
  case (Cons e evs)
  show ?case
  proof (cases "county e = c \<and> shindo e = s")
    case True
    then have step: "tableCell (countEvent st e) c s = Some (Num (m + 1))"
      using Cons.prems assms
      by (auto simp: tableCell_countEvent_ordinary countOf_def orZeroPlusOne_def
               split: option.splits js_value.splits)
    then have "countOf (tableCell (countEvent st e) c s) = Some (m + 1)"
      by (simp add: countOf_def)
    from Cons.IH [OF this] step True show ?thesis
      by (simp add: eventsOfCell_def)
  next
    case False
    then have "tableCell (countEvent st e) c s = tableCell st c s"
      by (rule tableCell_countEvent_other)
    with Cons.IH [of "countEvent st e" m] Cons.prems False show ?thesis
      by (auto simp: eventsOfCell_def)
  qed
qed

lemma tableCell_buildStats_ordinary:
  "Object_prototype s = None \<Longrightarrow>
   tableCell (buildStats evs) c s =
     (if eventsOfCell evs c s = 0 then None else Some (Num (eventsOfCell evs c s)))"
  using tableCell_foldl_ordinary [of s Map.empty c 0 evs]
  by (simp add: buildStats_def countOf_def tableCell_def)

lemma horizonKey_values:
  "horizonKey 1 = ascii ''1yr''" "horizonKey 3 = ascii ''3yr''"
  "horizonKey 6 = ascii ''6yr''" "horizonKey 9 = ascii ''9yr''"
  "horizonKey (Suc 0) = ascii ''1yr''"
  by (simp_all add: horizonKey_def ascii_def numberToString.simps)

lemma horizon_keys_distinct:
  "ascii ''1yr'' \<noteq> ascii ''3yr''" "ascii ''1yr'' \<noteq> ascii ''6yr''" "ascii ''1yr'' \<noteq> ascii ''9yr''"
  "ascii ''3yr'' \<noteq> ascii ''6yr''" "ascii ''3yr'' \<noteq> ascii ''9yr''" "ascii ''6yr'' \<noteq> ascii ''9yr''"
  by (simp_all add: ascii_def)

lemma cellProbabilities_unfold:
  "cellProbabilities v y =
     [ascii ''1yr'' \<mapsto> probabilityPercent (annualRate v y) 1,
      ascii ''3yr'' \<mapsto> probabilityPercent (annualRate v y) 3,
      ascii ''6yr'' \<mapsto> probabilityPercent (annualRate v y) 6,
      ascii ''9yr'' \<mapsto> probabilityPercent (annualRate v y) 9]"
  by (simp add: cellProbabilities_def timeIntervals_def Let_def horizonKey_values)

lemma cellProbabilities_values:
  "cellProbabilities v y (ascii ''1yr'') = Some (probabilityPercent (annualRate v y) 1)"
  "cellProbabilities v y (ascii ''3yr'') = Some (probabilityPercent (annualRate v y) 3)"
  "cellProbabilities v y (ascii ''6yr'') = Some (probabilityPercent (annualRate v y) 6)"
  "cellProbabilities v y (ascii ''9yr'') = Some (probabilityPercent (annualRate v y) 9)"
  using horizon_keys_distinct by (simp_all add: cellProbabilities_unfold)

lemma cellProbabilities_dom:
  "dom (cellProbabilities v y) = {ascii ''1yr'', ascii ''3yr'', ascii ''6yr'', ascii ''9yr''}"
  by (auto simp: cellProbabilities_unfold split: if_splits)

lemma resultCell_analyze:
  "resultCell (analyzeEarthquakeData evs now) c s =
     (if totalAnalysisYears evs now < 1 then None
      else map_option (\<lambda>v. cellProbabilities v (totalAnalysisYears evs now))
             (tableCell (buildStats evs) c s))"
  by (simp add: resultCell_def analyzeEarthquakeData_def Let_def tableCell_def split: option.splits)

lemma probabilityPercent_NaN: "probabilityPercent (annualRate (Str t) y) k = NaN"
  by (simp add: probabilityPercent_def annualRate_def toNumber_def)

lemma rate_mono:
  assumes "0 \<le> l" and "t1 \<le> t2"
  shows "Math_round ((1 - exp (- (l * real t1))) * 10000) / 100
           \<le> Math_round ((1 - exp (- (l * real t2))) * 10000) / 100"
proof -
  have "l * real t1 \<le> l * real t2" using assms by (simp add: mult_left_mono)
  then have "(1 - exp (- (l * real t1))) * 10000 \<le> (1 - exp (- (l * real t2))) * 10000"
    by simp
  then have "\<lfloor>(1 - exp (- (l * real t1))) * 10000 + 1 / 2\<rfloor>
               \<le> \<lfloor>(1 - exp (- (l * real t2))) * 10000 + 1 / 2\<rfloor>"
    by (intro floor_mono) simp
  then show ?thesis
    by (simp add: Math_round_def divide_right_mono)
qed

lemma probabilityPercent_mono:
  assumes "1 \<le> y" and "t1 \<le> t2"
  shows "number_le (probabilityPercent (annualRate (Num n) y) t1)
                   (probabilityPercent (annualRate (Num n) y) t2)"
proof -
  have "0 \<le> real n / y" using assms(1) by simp
  from rate_mono [OF this assms(2)] show ?thesis
    by (simp add: probabilityPercent_def annualRate_def toNumber_def number_le_def Let_def)
qed

lemma rate_range:
  assumes "0 \<le> l"
  shows "0 \<le> Math_round ((1 - exp (- (l * real t))) * 10000) / 100"
    and "Math_round ((1 - exp (- (l * real t))) * 10000) / 100 \<le> 100"
proof -
  define p where "p = 1 - exp (- (l * real t))"
  have "0 \<le> l * real t" using assms by simp
  then have "exp (- (l * real t)) \<le> 1" by simp
  then have p0: "0 \<le> p" by (simp add: p_def)
  have "0 < exp (- (l * real t))" by simp
  then have p1: "p < 1" by (simp add: p_def)
  have "0 \<le> p * 10000 + 1 / 2" using p0 by linarith
  then have f0: "0 \<le> \<lfloor>p * 10000 + 1 / 2\<rfloor>" by simp
  have "p * 10000 + 1 / 2 < 10001" using p1 by linarith
  then have "\<lfloor>p * 10000 + 1 / 2\<rfloor> < 10001" by (simp add: floor_less_iff)
  then have f1: "real_of_int \<lfloor>p * 10000 + 1 / 2\<rfloor> \<le> 10000" by linarith
  have eq: "Math_round ((1 - exp (- (l * real t))) * 10000) / 100
              = real_of_int \<lfloor>p * 10000 + 1 / 2\<rfloor> / 100"
    by (simp add: Math_round_def p_def)
  show "0 \<le> Math_round ((1 - exp (- (l * real t))) * 10000) / 100"
    unfolding eq using f0 by simp
  show "Math_round ((1 - exp (- (l * real t))) * 10000) / 100 \<le> 100"
    unfolding eq using f1 by simp
qed

lemma probabilityPercent_isPercentage:
  assumes "1 \<le> y"
  shows "isPercentage (probabilityPercent (annualRate (Num n) y) t)"
proof -
  have "0 \<le> real n / y" using assms by simp
  from rate_range [OF this, of t] show ?thesis
    by (simp add: probabilityPercent_def annualRate_def toNumber_def isPercentage_def Let_def
          Math_round_def)
qed

lemma countEvent_strings:
  assumes "\<And>c s t. tableCell st c s = Some (Str t) \<Longrightarrow> take 9 t = ascii ''function ''"
    and "tableCell (countEvent st e) c s = Some (Str t)"
  shows "take 9 t = ascii ''function ''"
proof (cases "county e = c \<and> shindo e = s")
  case False
  with assms show ?thesis by (simp add: tableCell_countEvent_other)
next
  case True
  define row where "row = (case st c of None \<Rightarrow> Map.empty | Some r \<Rightarrow> r)"
  have row: "row s = tableCell st c s" by (simp add: row_def tableCell_def split: option.splits)
  show ?thesis
  proof (cases "s = ascii ''__proto__''")
    case True
    with \<open>county e = c \<and> shindo e = s\<close> assms(2) have "tableCell st c s = Some (Str t)"
      by (simp add: countEvent_def setProperty_def tableCell_def Let_def split: option.splits)
    with assms(1) show ?thesis by blast
  next
    case False
    with \<open>county e = c \<and> shindo e = s\<close> assms(2)
    have v: "orZeroPlusOne (getProperty row s) = Str t"
      by (simp add: countEvent_def setProperty_def tableCell_def Let_def row_def)
    show ?thesis
    proof (cases "getProperty row s")
      case Undefined
      with v show ?thesis by (simp add: orZeroPlusOne_def)
    next
      case (Own w)
      then have w: "tableCell st c s = Some w"
        using row by (auto simp: getProperty_def split: option.splits)
      show ?thesis
      proof (cases w)
        case (Num n)
        with Own v show ?thesis by (simp add: orZeroPlusOne_def)
      next
        case (Str u)
        with w assms(1) have u: "take 9 u = ascii ''function ''" by blast
        then have "length (take 9 u) = 9" by (simp add: length_ascii)
        then have "9 \<le> length u" by simp
        moreover from Str Own v have "t = u @ ascii ''1''"
          by (simp add: orZeroPlusOne_def split: if_splits)
        ultimately show ?thesis using u by simp
      qed
    next
      case (Inherited m)
      show ?thesis
      proof (cases m)
        case (BuiltinFunction f)
        with Inherited v show ?thesis
          by (auto simp: orZeroPlusOne_def nativeFunctionText_def length_ascii)
      next
        case ProtoAccessor
        with Inherited have "Object_prototype s = Some ProtoAccessor"
          by (auto simp: getProperty_def split: option.splits)
        with False show ?thesis by (auto dest: proto_accessor_key)
      qed
    qed
  qed
qed

lemma foldl_strings:
  "(\<And>c s t. tableCell st c s = Some (Str t) \<Longrightarrow> take 9 t = ascii ''function '') \<Longrightarrow>
   tableCell (foldl countEvent st evs) c s = Some (Str t) \<Longrightarrow> take 9 t = ascii ''function ''"
proof (induction evs arbitrary: st c s t)
  case Nil
  then show ?case by simp
next
  case (Cons e evs)
  show ?case
  proof (rule Cons.IH [of "countEvent st e"])
    show "take 9 t' = ascii ''function ''" if "tableCell (countEvent st e) c' s' = Some (Str t')"
      for c' s' t'
      using Cons.prems(1) that by (rule countEvent_strings)
    show "tableCell (foldl countEvent (countEvent st e) evs) c s = Some (Str t)"
      using Cons.prems(2) by simp
  qed
qed

lemma buildStats_strings:
  "tableCell (buildStats evs) c s = Some (Str t) \<Longrightarrow> take 9 t = ascii ''function ''"
  unfolding buildStats_def by (rule foldl_strings [of Map.empty]) (simp_all add: tableCell_def)

lemma countEvent_function:
  assumes "Object_prototype s = Some (BuiltinFunction f)"
    and "tableCell st c s = None \<or> (\<exists>t. tableCell st c s = Some (Str t) \<and> t \<noteq> [])"
    and "county e = c" and "shindo e = s"
  shows "\<exists>t. tableCell (countEvent st e) c s = Some (Str t) \<and> t \<noteq> []"
proof -
  define row where "row = (case st c of None \<Rightarrow> Map.empty | Some r \<Rightarrow> r)"
  have row: "row s = tableCell st c s" by (simp add: row_def tableCell_def split: option.splits)
  have "tableCell (countEvent st e) c s = Some (orZeroPlusOne (getProperty row s))"
    using assms(3,4) function_key_not_proto [OF assms(1)]
    by (simp add: countEvent_def setProperty_def tableCell_def Let_def row_def)
  moreover have "\<exists>t. orZeroPlusOne (getProperty row s) = Str t \<and> t \<noteq> []"
    using assms(1,2) row
    by (auto simp: getProperty_def orZeroPlusOne_def ascii_def split: option.splits)
  ultimately show ?thesis by simp
qed

lemma foldl_function:
  assumes "Object_prototype s = Some (BuiltinFunction f)"
  shows "tableCell st c s = None \<or> (\<exists>t. tableCell st c s = Some (Str t) \<and> t \<noteq> []) \<Longrightarrow>
         0 < eventsOfCell evs c s \<Longrightarrow>
         \<exists>t. tableCell (foldl countEvent st evs) c s = Some (Str t) \<and> t \<noteq> []"
proof (induction evs arbitrary: st)
  case Nil
  then show ?case by (simp add: eventsOfCell_def)
next
  case (Cons e evs)
  show ?case
  proof (cases "county e = c \<and> shindo e = s")
    case True
    with countEvent_function [OF assms Cons.prems(1)]
    obtain t where t: "tableCell (countEvent st e) c s = Some (Str t)" "t \<noteq> []" by blast
    show ?thesis
    proof (cases "eventsOfCell evs c s = 0")
      case True
      then have "filter (\<lambda>e. county e = c \<and> shindo e = s) evs = []"
        by (simp add: eventsOfCell_def)
      then have "\<forall>x \<in> set evs. \<not> (county x = c \<and> shindo x = s)"
        by (simp add: filter_empty_conv)
      then have "tableCell (foldl countEvent (countEvent st e) evs) c s
                   = tableCell (countEvent st e) c s"
        by (induction evs arbitrary: st rule: rev_induct)
           (simp_all add: tableCell_countEvent_other)
      with t show ?thesis by simp
    next
      case False
      with Cons.IH [of "countEvent st e"] t show ?thesis by simp
    qed
  next
    case False
    then have "tableCell (countEvent st e) c s = tableCell st c s"
      by (rule tableCell_countEvent_other)
    moreover from False Cons.prems(2) have "0 < eventsOfCell evs c s"
      by (auto simp: eventsOfCell_def)
    ultimately show ?thesis using Cons.IH [of "countEvent st e"] Cons.prems(1) by simp
  qed
qed

lemma inherited_label_text:
  assumes "Object_prototype s = Some (BuiltinFunction f)" and "0 < eventsOfCell evs c s"
  shows "\<exists>t. tableCell (buildStats evs) c s = Some (Str t)"
  using foldl_function [OF assms(1), of Map.empty c evs] assms(2)
  by (auto simp: buildStats_def tableCell_def)

lemma inherited_label_NaN:
  assumes "\<not> totalAnalysisYears evs now < 1"
    and "Object_prototype s = Some (BuiltinFunction f)" and "0 < eventsOfCell evs c s"
  shows "resultValue (analyzeEarthquakeData evs now) c s (ascii ''1yr'') = Some NaN
       \<and> resultValue (analyzeEarthquakeData evs now) c s (ascii ''3yr'') = Some NaN
       \<and> resultValue (analyzeEarthquakeData evs now) c s (ascii ''6yr'') = Some NaN
       \<and> resultValue (analyzeEarthquakeData evs now) c s (ascii ''9yr'') = Some NaN"
proof -
  from inherited_label_text [OF assms(2,3)]
  obtain t where "tableCell (buildStats evs) c s = Some (Str t)" ..
  with assms(1) have "resultCell (analyzeEarthquakeData evs now) c s
      = Some (cellProbabilities (Str t) (totalAnalysisYears evs now))"
    by (simp add: resultCell_analyze)
  then show ?thesis
    by (simp add: resultValue_def cellProbabilities_values probabilityPercent_NaN)
qed

lemma proto_label_foldl:
  "tableCell (foldl countEvent st evs) c (ascii ''__proto__'') = tableCell st c (ascii ''__proto__'')"
proof (induction evs arbitrary: st)
  case Nil
  then show ?case by simp
next
  case (Cons e evs)
  have "tableCell (countEvent st e) c (ascii ''__proto__'') = tableCell st c (ascii ''__proto__'')"
    by (auto simp: tableCell_def countEvent_def setProperty_def Let_def split: option.splits)
  with Cons.IH [of "countEvent st e"] show ?case by simp
qed

lemma proto_label_no_cell:
  "resultCell (analyzeEarthquakeData evs now) c (ascii ''__proto__'') = None"
  using proto_label_foldl [of Map.empty evs c]
  by (simp add: resultCell_analyze buildStats_def) (simp add: tableCell_def)

lemma ordinary_cell:
  assumes "resultCell (analyzeEarthquakeData evs now) c s = Some cell"
    and "Object_prototype s = None"
  shows "1 \<le> totalAnalysisYears evs now \<and> 0 < eventsOfCell evs c s
       \<and> cell = cellProbabilities (Num (eventsOfCell evs c s)) (totalAnalysisYears evs now)"
  using assms
  by (auto simp: resultCell_analyze tableCell_buildStats_ordinary split: if_splits)

lemma ordinary_horizons_monotone:
  assumes "resultCell (analyzeEarthquakeData evs now) c s = Some cell"
    and "Object_prototype s = None" and "shortRegions evs"
  shows "horizonsNonDecreasing (analyzeEarthquakeData evs now) c s"
proof -
  from ordinary_cell [OF assms(1,2)]
  have y: "1 \<le> totalAnalysisYears evs now"
    and cell: "cell = cellProbabilities (Num (eventsOfCell evs c s)) (totalAnalysisYears evs now)"
    by simp_all
  show ?thesis
    using y probabilityPercent_mono [OF y, of _ _ "eventsOfCell evs c s"]
    by (simp add: horizonsNonDecreasing_def resultValue_def assms(1) cell cellProbabilities_values)
qed

lemma ordinary_percentages_valid:
  assumes "resultCell (analyzeEarthquakeData evs now) c s = Some cell"
    and "Object_prototype s = None" and "shortRegions evs"
  shows "percentagesValid (analyzeEarthquakeData evs now) c s"
proof -
  from ordinary_cell [OF assms(1,2)]
  have y: "1 \<le> totalAnalysisYears evs now"
    and cell: "cell = cellProbabilities (Num (eventsOfCell evs c s)) (totalAnalysisYears evs now)"
    by simp_all
  show ?thesis
    using probabilityPercent_isPercentage [OF y, of "eventsOfCell evs c s"]
    by (simp add: percentagesValid_def resultValue_def assms(1) cell cellProbabilities_values)
qed

lemma result_cell_keys:
  assumes "resultCell (analyzeEarthquakeData evs now) c s = Some cell"
  shows "dom cell = {ascii ''1yr'', ascii ''3yr'', ascii ''6yr'', ascii ''9yr''}"
proof -
  from assms obtain v where "cell = cellProbabilities v (totalAnalysisYears evs now)"
    by (auto simp: resultCell_analyze split: if_splits)
  then show ?thesis by (simp only: cellProbabilities_dom)
qed

subsection \<open>A label that names a built-in function\<close>

lemma inherited_sample_extract:
  "extractEarthquakeEvents sample_parseDate
     (Some \<lparr>Data = Some \<lparr>Earthquake = Some
        [\<lparr>Shindo = Some [\<lparr>ShindoValue = Some [ascii ''constructor'']\<rparr>],
          Location = Some [\<lparr>LocationName = Some [[0x53F0, 0x5317, 0x5E02]]\<rparr>],
          EarthquakeInfo = Some [\<lparr>OriginTime = Some [[0x30]]\<rparr>]\<rparr>]\<rparr>\<rparr>)
   = [\<lparr>time = Valid 0, county = [0x53F0, 0x5317, 0x5E02], shindo = ascii ''constructor''\<rparr>]"
  by (simp add: extractEarthquakeEvents_def eventNodes_def eventCallback_def tryEvent_def
        readShindo_def readLocation_def readTime_def index0_def newDate_def sample_parseDate_def
        string_eval)
     (simp add: ascii_def)

lemma inherited_sample_window:
  "totalAnalysisYears
     [\<lparr>time = Valid 0, county = [0x53F0, 0x5317, 0x5E02], shindo = ascii ''constructor''\<rparr>]
     63115200000 = 2"
  by (simp add: totalAnalysisYears_def minHistoryDate_def msPerYear_def)

lemma constructor_member:
  "Object_prototype (ascii ''constructor'') = Some (BuiltinFunction (ascii ''Object''))"
  by (simp add: Object_prototype_def)

lemma constructor_not_proto: "ascii ''constructor'' \<noteq> ascii ''__proto__''"
  by (simp add: ascii_def)

lemma constructor_text:
  "nativeFunctionText (ascii ''Object'') @ ascii ''1''
     = ascii ''function Object() { [native code] }1''"
  by (simp add: nativeFunctionText_def ascii_def)

lemma inherited_sample_table:
  "tableCell (buildStats
     [\<lparr>time = Valid 0, county = [0x53F0, 0x5317, 0x5E02], shindo = ascii ''constructor''\<rparr>])
     [0x53F0, 0x5317, 0x5E02] (ascii ''constructor'')
   = Some (Str (ascii ''function Object() { [native code] }1''))"
  by (simp add: tableCell_def buildStats_def countEvent_def getProperty_def setProperty_def
        orZeroPlusOne_def constructor_member constructor_not_proto constructor_text Let_def)

lemma inherited_sample_cell:
  "resultCell (analyzeEarthquakeData
     [\<lparr>time = Valid 0, county = [0x53F0, 0x5317, 0x5E02], shindo = ascii ''constructor''\<rparr>]
     63115200000) [0x53F0, 0x5317, 0x5E02] (ascii ''constructor'')
   = Some (cellProbabilities (Str (ascii ''function Object() { [native code] }1'')) 2)"
  by (simp add: resultCell_analyze inherited_sample_window inherited_sample_table)

text \<open>
  Claim C1: every cell of the frequency table, with the count \<open>c\<close> of the events of its
  region and intensity, yields for each horizon \<open>t\<close> of 1, 3, 6 and 9 years the stored value
  \<open>round((1 - e^(-(c / totalYears) * t)) * 10000) / 100\<close> under the key made of \<open>t\<close> and
  \<open>yr\<close>. The counting loop reads the row through the prototype chain. For one event with
  the intensity label \<open>constructor\<close> and a window of two years, the row inherits a built-in
  function under that label, the cell of the table holds a string instead of the count 1, and
  the value stored under each of the four keys is \<open>NaN\<close>. Lemma \<open>inherited_label_NaN\<close>
  shows this for every event list and every label that names a built-in function of
  \<open>Object.prototype\<close>; lemmas \<open>tableCell_buildStats_ordinary\<close> and \<open>ordinary_cell\<close>
  show that every other label has its count in the table and its cell computed from that
  count.
\<close>

theorem inherited_label_stores_NaN:
  "eventsOfCell
     [\<lparr>time = Valid 0, county = [0x53F0, 0x5317, 0x5E02], shindo = ascii ''constructor''\<rparr>]
     [0x53F0, 0x5317, 0x5E02] (ascii ''constructor'') = 1
   \<and> tableCell (buildStats
     [\<lparr>time = Valid 0, county = [0x53F0, 0x5317, 0x5E02], shindo = ascii ''constructor''\<rparr>])
     [0x53F0, 0x5317, 0x5E02] (ascii ''constructor'')
       = Some (Str (ascii ''function Object() { [native code] }1''))
   \<and> resultValue (analyzeEarthquakeData
     [\<lparr>time = Valid 0, county = [0x53F0, 0x5317, 0x5E02], shindo = ascii ''constructor''\<rparr>]
     63115200000) [0x53F0, 0x5317, 0x5E02] (ascii ''constructor'') (ascii ''1yr'') = Some NaN
   \<and> resultValue (analyzeEarthquakeData
     [\<lparr>time = Valid 0, county = [0x53F0, 0x5317, 0x5E02], shindo = ascii ''constructor''\<rparr>]
     63115200000) [0x53F0, 0x5317, 0x5E02] (ascii ''constructor'') (ascii ''3yr'') = Some NaN
   \<and> resultValue (analyzeEarthquakeData
     [\<lparr>time = Valid 0, county = [0x53F0, 0x5317, 0x5E02], shindo = ascii ''constructor''\<rparr>]
     63115200000) [0x53F0, 0x5317, 0x5E02] (ascii ''constructor'') (ascii ''6yr'') = Some NaN
   \<and> resultValue (analyzeEarthquakeData
     [\<lparr>time = Valid 0, county = [0x53F0, 0x5317, 0x5E02], shindo = ascii ''constructor''\<rparr>]
     63115200000) [0x53F0, 0x5317, 0x5E02] (ascii ''constructor'') (ascii ''9yr'') = Some NaN"
  by (simp add: inherited_sample_table resultValue_def inherited_sample_cell
        cellProbabilities_values probabilityPercent_NaN)
     (simp add: eventsOfCell_def)

text \<open>
  Claim C6: in every cell of the result the stored percentages do not decrease with the
  horizon. In the cell of the intensity label \<open>constructor\<close> the values for 1yr and 3yr
  are both \<open>NaN\<close>, and no comparison with \<open>NaN\<close> holds. Lemma
  \<open>ordinary_horizons_monotone\<close> shows the claim for every cell whose label is not a member
  of \<open>Object.prototype\<close>.
\<close>

theorem inherited_label_not_monotone:
  "resultValue (analyzeEarthquakeData
     [\<lparr>time = Valid 0, county = [0x53F0, 0x5317, 0x5E02], shindo = ascii ''constructor''\<rparr>]
     63115200000) [0x53F0, 0x5317, 0x5E02] (ascii ''constructor'') (ascii ''1yr'') = Some NaN
   \<and> resultValue (analyzeEarthquakeData
     [\<lparr>time = Valid 0, county = [0x53F0, 0x5317, 0x5E02], shindo = ascii ''constructor''\<rparr>]
     63115200000) [0x53F0, 0x5317, 0x5E02] (ascii ''constructor'') (ascii ''3yr'') = Some NaN
   \<and> \<not> number_le NaN NaN
   \<and> \<not> horizonsNonDecreasing (analyzeEarthquakeData
     [\<lparr>time = Valid 0, county = [0x53F0, 0x5317, 0x5E02], shindo = ascii ''constructor''\<rparr>]
     63115200000) [0x53F0, 0x5317, 0x5E02] (ascii ''constructor'')"
  by (simp add: horizonsNonDecreasing_def resultValue_def inherited_sample_cell
        cellProbabilities_values probabilityPercent_NaN number_le_def)

text \<open>
  Claim C8: in every cell of the result the keys are exactly 1yr, 3yr, 6yr and 9yr, and
  every stored value lies between 0 and 100 and is a whole number of hundredths. The cell of
  the intensity label \<open>constructor\<close> has the four keys, and the value stored under each is
  \<open>NaN\<close>, which is no percentage. Lemma \<open>result_cell_keys\<close> shows the keys of every cell,
  lemma \<open>ordinary_percentages_valid\<close> the values of every cell whose label is not a member
  of \<open>Object.prototype\<close>.
\<close>

theorem inherited_label_not_percentage:
  "dom (cellProbabilities (Str (ascii ''function Object() { [native code] }1'')) 2)
     = {ascii ''1yr'', ascii ''3yr'', ascii ''6yr'', ascii ''9yr''}
   \<and> resultCell (analyzeEarthquakeData
     [\<lparr>time = Valid 0, county = [0x53F0, 0x5317, 0x5E02], shindo = ascii ''constructor''\<rparr>]
     63115200000) [0x53F0, 0x5317, 0x5E02] (ascii ''constructor'')
     = Some (cellProbabilities (Str (ascii ''function Object() { [native code] }1'')) 2)
   \<and> resultValue (analyzeEarthquakeData
     [\<lparr>time = Valid 0, county = [0x53F0, 0x5317, 0x5E02], shindo = ascii ''constructor''\<rparr>]
     63115200000) [0x53F0, 0x5317, 0x5E02] (ascii ''constructor'') (ascii ''9yr'') = Some NaN
   \<and> \<not> isPercentage NaN
   \<and> \<not> percentagesValid (analyzeEarthquakeData
     [\<lparr>time = Valid 0, county = [0x53F0, 0x5317, 0x5E02], shindo = ascii ''constructor''\<rparr>]
     63115200000) [0x53F0, 0x5317, 0x5E02] (ascii ''constructor'')"
  by (simp add: percentagesValid_def resultValue_def inherited_sample_cell
        cellProbabilities_values probabilityPercent_NaN isPercentage_def cellProbabilities_dom)

section \<open>Properties of the run history\<close>

lemma tryBody_history:
  "tryBody env name = (effects, r) \<Longrightarrow>
     map status (history effects) = [] \<or> map status (history effects) = [ascii ''SUCCESS (Auto)'']"
  by (auto simp: tryBody_def Let_def split: sum.splits prod.splits if_splits option.splits)

lemma tryBody_success:
  "tryBody env name = (effects, Inr u) \<Longrightarrow>
     map status (history effects) = [ascii ''SUCCESS (Auto)'']"
  by (auto simp: tryBody_def Let_def split: sum.splits prod.splits if_splits option.splits)

lemma main_statuses:
  "map status (history (main env)) =
     (if caught env
      then map status (history (fst (tryBody env (orDefault (GITHUB_ACTOR env) default_updater))))
             @ [ascii ''FAILED (Auto)'']
      else [ascii ''SUCCESS (Auto)''])"
proof (cases "tryBody env (orDefault (GITHUB_ACTOR env) default_updater)")
  case (Pair effects r)
  show ?thesis
  proof (cases r)
    case (Inl e)
    with Pair show ?thesis by (simp add: main_def caught_def Let_def)
  next
    case (Inr u)
    with Pair tryBody_success [of env _ effects u] show ?thesis
      by (simp add: main_def caught_def Let_def)
  qed
qed

lemma sample_extract:
  "extractEarthquakeEvents sample_parseDate (Some \<lparr>Data = Some \<lparr>Earthquake = Some
                  [\<lparr>Shindo = Some [\<lparr>ShindoValue = Some [[0x33]]\<rparr>],
                    Location = None,
                    EarthquakeInfo = Some [\<lparr>OriginTime = Some [[0x30]]\<rparr>]\<rparr>]\<rparr>\<rparr>)
   = [\<lparr>time = Valid 0, county = [0x672A, 0x77E5, 0x7E23], shindo = [0x33]\<rparr>]"
  by (simp add: extractEarthquakeEvents_def eventNodes_def eventCallback_def tryEvent_def
        readShindo_def readLocation_def readTime_def index0_def newDate_def sample_parseDate_def
        string_eval)

lemma sample_extract_none: "extractEarthquakeEvents sample_parseDate None = []"
  by (simp add: extractEarthquakeEvents_def eventNodes_def)

lemma sample_run:
  "map status (history (main sample_env)) = [ascii ''SUCCESS (Auto)'']"
  by (simp add: main_def tryBody_def sample_env_def sample_extract sample_extract_none Let_def)

text \<open>
  Claim C9: the status of every run-history entry is one of the two labels of the run
  outcome. The labels the code writes are \<open>SUCCESS (Auto)\<close> and \<open>FAILED (Auto)\<close>: every
  entry handed to the history carries one of them, a run whose \<open>try\<close> block ends in an
  exception ends its history with a \<open>FAILED (Auto)\<close> entry, and any other run hands over
  exactly one entry, with \<open>SUCCESS (Auto)\<close>.
\<close>

theorem history_status_labels:
  "(\<forall>entry \<in> set (history (main env)).
      status entry \<in> {ascii ''SUCCESS (Auto)'', ascii ''FAILED (Auto)''})
   \<and> (if caught env
      then status (last (history (main env))) = ascii ''FAILED (Auto)''
      else map status (history (main env)) = [ascii ''SUCCESS (Auto)''])"
proof -
  obtain effects r where t: "tryBody env (orDefault (GITHUB_ACTOR env) default_updater) = (effects, r)"
    by (cases "tryBody env (orDefault (GITHUB_ACTOR env) default_updater)")
  from tryBody_history [OF t]
  have "set (map status (history (main env))) \<subseteq> {ascii ''SUCCESS (Auto)'', ascii ''FAILED (Auto)''}"
    by (auto simp: main_statuses t)
  then have a: "\<forall>entry \<in> set (history (main env)).
      status entry \<in> {ascii ''SUCCESS (Auto)'', ascii ''FAILED (Auto)''}"
    by auto
  have "last (map status (history (main env))) = ascii ''FAILED (Auto)''" if "caught env"
    using that by (simp add: main_statuses)
  moreover have "history (main env) \<noteq> []" if "caught env"
    using that main_statuses [of env] by auto
  ultimately have b: "status (last (history (main env))) = ascii ''FAILED (Auto)''" if "caught env"
    using that by (simp add: last_map)
  have c: "map status (history (main env)) = [ascii ''SUCCESS (Auto)'']" if "\<not> caught env"
    using that by (simp add: main_statuses)
  from a b c show ?thesis by simp
qed

theorem history_status_labels_witness:
  "hd (history (main sample_env)) \<in> set (history (main sample_env))
   \<and> status (hd (history (main sample_env)))
        \<in> {ascii ''SUCCESS (Auto)'', ascii ''FAILED (Auto)''}
   \<and> \<not> caught sample_env
   \<and> map status (history (main sample_env)) = [ascii ''SUCCESS (Auto)'']"
proof -
  have c: "\<not> caught sample_env"
    by (simp add: caught_def tryBody_def sample_env_def sample_extract sample_extract_none Let_def)
  from sample_run have "history (main sample_env) \<noteq> []" by auto
  then have "hd (history (main sample_env)) \<in> set (history (main sample_env))" by simp
  with c history_status_labels [of sample_env] show ?thesis by simp
qed

text \<open>
  The status written by a successful run is neither of the bare labels \<open>SUCCESS\<close> and
  \<open>FAILED\<close>.
\<close>

theorem history_status_counterexample:
  "map status (history (main sample_env)) = [ascii ''SUCCESS (Auto)'']
   \<and> ascii ''SUCCESS (Auto)'' \<notin> {ascii ''SUCCESS'', ascii ''FAILED''}"
  by (simp add: sample_run) (simp add: ascii_def)

end
